theory Spec2Isabelle
  imports Complex_Main
begin

section \<open>Parabolic reflector: the geometry of \<open>parabola_optics.py\<close>\<close>

text \<open>
  The class \<open>ParabolaOptics\<close> holds a focal length and computes where a ray meets the
  parabola \<open>y = x\<^sup>2 / (4 f)\<close> and in which direction it leaves.

  Numbers are modelled as exact reals: rounding of the 64-bit floats is not part of the
  model. A division whose divisor is zero is kept visible: numpy does not raise there, it
  emits a RuntimeWarning and goes on with \<open>inf\<close> or \<open>nan\<close>. The model stops such a run
  at the first division by zero with the fault \<open>ZeroDivision\<close> and does not follow the
  non-finite values any further. \<open>ValueError\<close> is what \<open>np.linspace\<close> raises for a
  negative count.
\<close>

subsection \<open>Data\<close>

datatype fault = ZeroDivision | ValueError

type_synonym vec = "real \<times> real"

text \<open>A ray as the generators build it: the pair \<open>(ray_start, ray_dir)\<close>.\<close>

type_synonym ray = "vec \<times> vec"

text \<open>The triple \<open>(intersection, reflected, t)\<close> that \<open>reflect_ray\<close> returns.\<close>

type_synonym hit = "vec \<times> vec \<times> real"

record ParabolaOptics =
  focus :: real
  directrix :: real

text \<open>\<open>__init__\<close> (lines 11-13): both attributes are set from the argument, nothing is checked.\<close>

definition init :: "real \<Rightarrow> ParabolaOptics" where
  "init f = \<lparr>focus = f, directrix = - f\<rparr>"

text \<open>
  The only mutation of a \<open>ParabolaOptics\<close> object in the program is line 139 of
  \<open>update\<close>, \<open>optics.focus = focus\<close>, an attribute assignment with the slider's value.
\<close>

definition update_focus :: "ParabolaOptics \<Rightarrow> real \<Rightarrow> ParabolaOptics" where
  "update_focus optics f = optics\<lparr>focus := f\<rparr>"

subsection \<open>Arithmetic helpers of numpy\<close>

text \<open>Division, with the zero divisor made explicit.\<close>

definition fdiv :: "real \<Rightarrow> real \<Rightarrow> fault + real" where
  "fdiv x y = (if y = 0 then Inl ZeroDivision else Inr (x / y))"

text \<open>\<open>np.linalg.norm\<close> of a pair and \<open>np.dot\<close> of two pairs.\<close>

definition norm2 :: "vec \<Rightarrow> real" where
  "norm2 v = sqrt ((fst v)\<^sup>2 + (snd v)\<^sup>2)"

definition dot :: "vec \<Rightarrow> vec \<Rightarrow> real" where
  "dot u v = fst u * fst v + snd u * snd v"

text \<open>An array divided by a scalar: both components, one zero test.\<close>

definition vdiv :: "vec \<Rightarrow> real \<Rightarrow> fault + vec" where
  "vdiv v s = (if s = 0 then Inl ZeroDivision else Inr (fst v / s, snd v / s))"

text \<open>
  \<open>np.allclose(a, b)\<close> with its default tolerances \<open>rtol = 1e-5\<close> and \<open>atol = 1e-8\<close>:
  every component satisfies \<open>|a - b| \<le> atol + rtol * |b|\<close>.
\<close>

definition rtol :: real where
  "rtol = 1 / 100000"

definition atol :: real where
  "atol = 1 / 100000000"

definition allclose :: "vec \<Rightarrow> vec \<Rightarrow> bool" where
  "allclose a b \<longleftrightarrow>
     \<bar>fst a - fst b\<bar> \<le> atol + rtol * \<bar>fst b\<bar> \<and> \<bar>snd a - snd b\<bar> \<le> atol + rtol * \<bar>snd b\<bar>"

subsection \<open>The curve\<close>

text \<open>\<open>parabola_y\<close> (lines 15-17) and \<open>get_tangent_slope\<close> (lines 19-21).\<close>

definition parabola_y :: "ParabolaOptics \<Rightarrow> real \<Rightarrow> fault + real" where
  "parabola_y self x = fdiv (x\<^sup>2) (4 * focus self)"

definition get_tangent_slope :: "ParabolaOptics \<Rightarrow> real \<Rightarrow> fault + real" where
  "get_tangent_slope self x = fdiv x (2 * focus self)"

subsection \<open>Reflection\<close>

text \<open>
  Lines 81-99, the part of \<open>reflect_ray\<close> that all three branches share once they have
  an intersection point and a parameter \<open>t\<close>. The normal slope \<open>np.inf\<close> of a horizontal
  tangent is the value \<open>None\<close>.
\<close>

definition reflect_at :: "ParabolaOptics \<Rightarrow> vec \<Rightarrow> vec \<Rightarrow> real \<Rightarrow> fault + hit option" where
  "reflect_at self intersection ray_dir t =
     (case get_tangent_slope self (fst intersection) of
        Inl e \<Rightarrow> Inl e
      | Inr tangent_slope \<Rightarrow>
          let normal_slope = (if tangent_slope \<noteq> 0 then Some (- 1 / tangent_slope) else None) in
          (case vdiv ray_dir (norm2 ray_dir) of
             Inl e \<Rightarrow> Inl e
           | Inr incident \<Rightarrow>
               (case (case normal_slope of
                        None \<Rightarrow> Inr (0, 1)
                      | Some s \<Rightarrow> vdiv (1, s) (norm2 (1, s))) of
                  Inl e \<Rightarrow> Inl e
                | Inr normal \<Rightarrow>
                    let k = 2 * dot incident normal;
                        reflected = (fst incident - k * fst normal, snd incident - k * snd normal)
                    in Inr (Some (intersection, reflected, t)))))"

text \<open>
  \<open>reflect_ray\<close> (lines 23-99). \<open>Inr None\<close> is the return value \<open>None\<close>; the three
  branches are the source's \<open>if\<close>, \<open>elif\<close> and \<open>else\<close>, in that order.
\<close>

definition reflect_ray :: "ParabolaOptics \<Rightarrow> vec \<Rightarrow> vec \<Rightarrow> fault + hit option" where
  "reflect_ray self ray_start ray_dir =
     (if allclose ray_start (0, focus self) then
        let dx = fst ray_dir; dy = snd ray_dir in
        (case fdiv (dx\<^sup>2) (4 * focus self) of
           Inl e \<Rightarrow> Inl e
         | Inr a \<Rightarrow>
             let b = - dy; c = - focus self; discriminant = b\<^sup>2 - 4 * a * c in
             if discriminant < 0 then Inr None
             else
               (case fdiv (- b + sqrt discriminant) (2 * a) of
                  Inl e \<Rightarrow> Inl e
                | Inr t \<Rightarrow>
                    if t < 0 then
                      (case fdiv (- b - sqrt discriminant) (2 * a) of
                         Inl e \<Rightarrow> Inl e
                       | Inr t' \<Rightarrow>
                           if t' < 0 then Inr None
                           else reflect_at self (0 + t' * dx, focus self + t' * dy) ray_dir t')
                    else reflect_at self (0 + t * dx, focus self + t * dy) ray_dir t))
      else if fst ray_dir = 0 then
        let x = fst ray_start in
        (case parabola_y self x of
           Inl e \<Rightarrow> Inl e
         | Inr y_parabola \<Rightarrow>
             if snd ray_dir = 0 then Inr None
             else
               (case fdiv (y_parabola - snd ray_start) (snd ray_dir) of
                  Inl e \<Rightarrow> Inl e
                | Inr t \<Rightarrow>
                    if t \<le> 0 then Inr None
                    else reflect_at self (x, y_parabola) ray_dir t))
      else
        let a = (fst ray_dir)\<^sup>2;
            b = 2 * fst ray_start * fst ray_dir - 4 * focus self * snd ray_dir;
            c = (fst ray_start)\<^sup>2 - 4 * focus self * snd ray_start;
            discriminant = b\<^sup>2 - 4 * a * c
        in
        if discriminant < 0 then Inr None
        else
          (case fdiv (- b - sqrt discriminant) (2 * a) of
             Inl e \<Rightarrow> Inl e
           | Inr t \<Rightarrow>
               if t < 0 then Inr None
               else reflect_at self
                      (fst ray_start + t * fst ray_dir, snd ray_start + t * snd ray_dir)
                      ray_dir t))"

subsection \<open>Ray bundles\<close>

text \<open>
  \<open>np.linspace(start, stop, num)\<close> with the end point included: \<open>num\<close> samples
  \<open>start + i * step\<close>, \<open>step = (stop - start) / (num - 1)\<close>; a single sample is
  \<open>start\<close>, no sample is the empty array, a negative count raises \<open>ValueError\<close>.
\<close>

definition linspace :: "real \<Rightarrow> real \<Rightarrow> int \<Rightarrow> fault + real list" where
  "linspace start stop num =
     (if num < 0 then Inl ValueError
      else if num = 1 then Inr [start]
      else Inr (map (\<lambda>i. start + real i * ((stop - start) / real_of_int (num - 1)))
                  [0 ..< nat num]))"

text \<open>\<open>generate_parallel_rays\<close> (lines 101-110).\<close>

definition generate_parallel_rays :: "ParabolaOptics \<Rightarrow> int \<Rightarrow> real \<times> real \<Rightarrow> fault + ray list" where
  "generate_parallel_rays self num_rays x_range =
     (case linspace (fst x_range) (snd x_range) num_rays of
        Inl e \<Rightarrow> Inl e
      | Inr x_positions \<Rightarrow> Inr (map (\<lambda>x. ((x, 10), (0, - 1))) x_positions))"

text \<open>
  \<open>generate_focal_rays\<close> (lines 112-127): the loop body for one \<open>x\<close>, then the loop,
  which stops at the first fault.
\<close>

definition focal_ray :: "ParabolaOptics \<Rightarrow> real \<Rightarrow> fault + ray" where
  "focal_ray self x =
     (case parabola_y self x of
        Inl e \<Rightarrow> Inl e
      | Inr y_parabola \<Rightarrow>
          let ray_start = (0, focus self);
              ray_dir = (x - 0, y_parabola - focus self)
          in (case vdiv ray_dir (norm2 ray_dir) of
                Inl e \<Rightarrow> Inl e
              | Inr d \<Rightarrow> Inr (ray_start, d)))"

fun focal_loop :: "ParabolaOptics \<Rightarrow> real list \<Rightarrow> fault + ray list" where
  "focal_loop self [] = Inr []"
| "focal_loop self (x # xs) =
     (case focal_ray self x of
        Inl e \<Rightarrow> Inl e
      | Inr r \<Rightarrow> (case focal_loop self xs of Inl e \<Rightarrow> Inl e | Inr rs \<Rightarrow> Inr (r # rs)))"

definition generate_focal_rays :: "ParabolaOptics \<Rightarrow> int \<Rightarrow> fault + ray list" where
  "generate_focal_rays self num_rays =
     (case linspace (- 3) 3 num_rays of
        Inl e \<Rightarrow> Inl e
      | Inr x_values \<Rightarrow> focal_loop self x_values)"

subsection \<open>The quadratic formula, as the specification words it\<close>

text \<open>
  The specification speaks of the discriminant of a quadratic \<open>a t\<^sup>2 + b t + c\<close>, of
  its smaller root (the \<open>- sqrt\<close> branch) and of its larger root (the \<open>+ sqrt\<close>
  branch). These three are the specification's notions; \<open>reflect_ray\<close> above does not
  use them, and the theorems below compare the two.
\<close>

definition spec_discriminant :: "real \<Rightarrow> real \<Rightarrow> real \<Rightarrow> real" where
  "spec_discriminant a b c = b\<^sup>2 - 4 * a * c"

definition spec_smaller_root :: "real \<Rightarrow> real \<Rightarrow> real \<Rightarrow> real" where
  "spec_smaller_root a b c = (- b - sqrt (spec_discriminant a b c)) / (2 * a)"

definition spec_larger_root :: "real \<Rightarrow> real \<Rightarrow> real \<Rightarrow> real" where
  "spec_larger_root a b c = (- b + sqrt (spec_discriminant a b c)) / (2 * a)"

section \<open>Properties\<close>

subsection \<open>The mirror formula\<close>






lemma norm2_eq_0: "norm2 v = 0 \<longleftrightarrow> v = (0, 0)"
  by (cases v) (simp add: norm2_def)

lemma norm2_slope_pos: "0 < norm2 (1, s)"
  by (simp add: norm2_def add_pos_nonneg)

lemma norm2_slope_sq: "(norm2 (1, s))\<^sup>2 = 1 + s\<^sup>2"
  by (simp add: norm2_def)

lemma reflect_at_flat:
  assumes "focus p \<noteq> 0" and "fst i = 0" and "d \<noteq> (0, 0)"
  shows "reflect_at p i d t = Inr (Some (i, (fst d / norm2 d, - (snd d / norm2 d)), t))"
  using assms
  by (simp add: reflect_at_def get_tangent_slope_def fdiv_def vdiv_def norm2_eq_0 dot_def)

lemma reflect_at_unfold:
  assumes "get_tangent_slope p (fst i) = Inr ts" and "ts \<noteq> 0"
    and "vdiv d (norm2 d) = Inr inc"
    and "vdiv (1, - 1 / ts) (norm2 (1, - 1 / ts)) = Inr nrm"
  shows "reflect_at p i d t =
    Inr (Some (i, (fst inc - 2 * dot inc nrm * fst nrm, snd inc - 2 * dot inc nrm * snd nrm), t))"
  using assms by (simp add: reflect_at_def Let_def)

lemma mirror_slope:
  fixes u v s N :: real
  assumes "N * N = 1 + s\<^sup>2" and "N \<noteq> 0"
  shows "2 * dot (u, v) (1 / N, s / N) * (1 / N) = 2 * (u + s * v) / (1 + s\<^sup>2)"
    and "2 * dot (u, v) (1 / N, s / N) * (s / N) = 2 * (u + s * v) * s / (1 + s\<^sup>2)"
proof -
  have "2 * dot (u, v) (1 / N, s / N) * (1 / N) = 2 * (u + s * v) / (N * N)"
    using assms(2) by (simp add: dot_def field_simps)
  then show "2 * dot (u, v) (1 / N, s / N) * (1 / N) = 2 * (u + s * v) / (1 + s\<^sup>2)"
    by (simp only: assms(1))
  have "2 * dot (u, v) (1 / N, s / N) * (s / N) = 2 * (u + s * v) * s / (N * N)"
    using assms(2) by (simp add: dot_def field_simps)
  then show "2 * dot (u, v) (1 / N, s / N) * (s / N) = 2 * (u + s * v) * s / (1 + s\<^sup>2)"
    by (simp only: assms(1))
qed

lemma reflect_at_slope:
  assumes "focus p \<noteq> 0" and "fst i \<noteq> 0" and "d \<noteq> (0, 0)"
    and "s = - (2 * focus p / fst i)" and "u = fst d / norm2 d" and "v = snd d / norm2 d"
  shows "reflect_at p i d t =
    Inr (Some (i, (u - 2 * (u + s * v) / (1 + s\<^sup>2), v - 2 * (u + s * v) * s / (1 + s\<^sup>2)), t))"
proof -
  define N where "N = norm2 (1, s)"
  have N: "N * N = 1 + s\<^sup>2"
    using norm2_slope_sq [of s] by (simp add: power2_eq_square N_def)
  have Nz: "N \<noteq> 0" using norm2_slope_pos [of s] by (simp add: N_def)
  have gts: "get_tangent_slope p (fst i) = Inr (fst i / (2 * focus p))"
    using assms(1) by (simp add: get_tangent_slope_def fdiv_def)
  have tnz: "fst i / (2 * focus p) \<noteq> 0" using assms(1,2) by simp
  have ts: "- 1 / (fst i / (2 * focus p)) = s" using assms(1,2,4) by (simp add: field_simps)
  have inc: "vdiv d (norm2 d) = Inr (u, v)"
    using assms(3,5,6) by (simp add: vdiv_def norm2_eq_0)
  have nrm: "vdiv (1, - 1 / (fst i / (2 * focus p))) (norm2 (1, - 1 / (fst i / (2 * focus p))))
      = Inr (1 / N, s / N)"
    unfolding ts using Nz by (simp add: vdiv_def N_def)
  show ?thesis
    unfolding reflect_at_unfold [OF gts tnz inc nrm]
    by (simp only: fst_conv snd_conv mirror_slope [OF N Nz])
qed

lemma reflect_at_total:
  assumes "focus p \<noteq> 0" and "d \<noteq> (0, 0)"
  shows "\<exists>r. reflect_at p i d t = Inr (Some (i, r, t))"
proof (cases "fst i = 0")
  case True
  then show ?thesis using reflect_at_flat [OF assms(1) True assms(2)] by blast
next
  case False
  then show ?thesis using reflect_at_slope [OF assms(1) False assms(2) refl refl refl] by blast
qed

subsection \<open>The three branches of \<open>reflect_ray\<close>\<close>

text \<open>
  Each branch in closed form, under the condition that selects it. The focus branch is
  given twice: with the intermediate values named, and in the specification's words.
\<close>

lemma reflect_at_SomeD:
  assumes "reflect_at p i d t' = Inr (Some (h, r, t))"
  shows "h = i \<and> t = t'"
  using assms by (auto simp: reflect_at_def Let_def split: sum.splits if_splits)



lemma general_branch:
  assumes "\<not> allclose s (0, focus p)" and "fst d \<noteq> 0"
    and "a = (fst d)\<^sup>2" and "b = 2 * fst s * fst d - 4 * focus p * snd d"
    and "c = (fst s)\<^sup>2 - 4 * focus p * snd s"
  shows "reflect_ray p s d =
    (if spec_discriminant a b c < 0 then Inr None
     else if spec_smaller_root a b c < 0 then Inr None
     else reflect_at p (fst s + spec_smaller_root a b c * fst d,
                        snd s + spec_smaller_root a b c * snd d) d (spec_smaller_root a b c))"
  using assms(1,2) unfolding assms(3-5)
  by (simp add: reflect_ray_def fdiv_def Let_def spec_discriminant_def spec_smaller_root_def)

lemma focus_branch:
  assumes "allclose s (0, focus p)" and "fdiv ((fst d)\<^sup>2) (4 * focus p) = Inr a"
    and "disc = (- snd d)\<^sup>2 - 4 * a * (- focus p)" and "\<not> disc < 0"
    and "fdiv (- (- snd d) + sqrt disc) (2 * a) = Inr t1"
    and "fdiv (- (- snd d) - sqrt disc) (2 * a) = Inr t2"
  shows "reflect_ray p s d =
    (if t1 < 0 then
       (if t2 < 0 then Inr None
        else reflect_at p (0 + t2 * fst d, focus p + t2 * snd d) d t2)
     else reflect_at p (0 + t1 * fst d, focus p + t1 * snd d) d t1)"
  using assms by (simp add: reflect_ray_def Let_def)

lemma allclose_refl: "allclose v v"
  by (simp add: allclose_def atol_def rtol_def)

lemma focus_disc_nonneg:
  assumes "focus p \<noteq> 0"
  shows "spec_discriminant ((fst d)\<^sup>2 / (4 * focus p)) (- snd d) (- focus p)
         = (snd d)\<^sup>2 + (fst d)\<^sup>2"
  using assms by (simp add: spec_discriminant_def)

lemma focus_branch_roots:
  assumes "allclose s (0, focus p)" and "focus p \<noteq> 0" and "fst d \<noteq> 0"
    and "a = (fst d)\<^sup>2 / (4 * focus p)" and "b = - snd d" and "c = - focus p"
  shows "reflect_ray p s d =
    (if spec_larger_root a b c < 0 then
       (if spec_smaller_root a b c < 0 then Inr None
        else reflect_at p (0 + spec_smaller_root a b c * fst d,
                           focus p + spec_smaller_root a b c * snd d) d (spec_smaller_root a b c))
     else reflect_at p (0 + spec_larger_root a b c * fst d,
                        focus p + spec_larger_root a b c * snd d) d (spec_larger_root a b c))"
proof -
  have anz: "2 * a \<noteq> 0" using assms(2,3) by (simp add: assms(4))
  have 1: "fdiv ((fst d)\<^sup>2) (4 * focus p) = Inr a"
    using assms(2) by (simp add: fdiv_def assms(4))
  have 2: "spec_discriminant a b c = (- snd d)\<^sup>2 - 4 * a * (- focus p)"
    by (simp add: spec_discriminant_def assms(5,6))
  have 3: "\<not> spec_discriminant a b c < 0"
    unfolding assms(4-6) focus_disc_nonneg [OF assms(2)] by (simp add: not_less)
  have 4: "fdiv (- (- snd d) + sqrt (spec_discriminant a b c)) (2 * a) = Inr (spec_larger_root a b c)"
    using anz by (simp add: fdiv_def spec_larger_root_def assms(5))
  have 5: "fdiv (- (- snd d) - sqrt (spec_discriminant a b c)) (2 * a) = Inr (spec_smaller_root a b c)"
    using anz by (simp add: fdiv_def spec_smaller_root_def assms(5))
  show ?thesis by (rule focus_branch [OF assms(1) 1 2 3 4 5])
qed

lemma focus_branch_t_positive:
  assumes "allclose s (0, focus p)" and "focus p \<noteq> 0" and "fst d \<noteq> 0"
    and "reflect_ray p s d = Inr (Some (h, r, t))"
  shows "0 < t"
proof -
  define a where "a = (fst d)\<^sup>2 / (4 * focus p)"
  define D where "D = (snd d)\<^sup>2 + (fst d)\<^sup>2"
  have anz: "2 * a \<noteq> 0" using assms(2,3) by (simp add: a_def)
  have disc: "spec_discriminant a (- snd d) (- focus p) = D"
    unfolding a_def D_def by (rule focus_disc_nonneg [OF assms(2)])
  have gt: "\<bar>snd d\<bar> < sqrt D"
  proof -
    have "(snd d)\<^sup>2 < D" using assms(3) by (simp add: D_def)
    then have "sqrt ((snd d)\<^sup>2) < sqrt D" by (simp only: real_sqrt_less_iff)
    then show ?thesis by simp
  qed
  have nz1: "spec_larger_root a (- snd d) (- focus p) \<noteq> 0"
    using anz gt by (simp add: spec_larger_root_def disc)
  have nz2: "spec_smaller_root a (- snd d) (- focus p) \<noteq> 0"
    using anz gt by (simp add: spec_smaller_root_def disc)
  from assms(4) have "t = spec_larger_root a (- snd d) (- focus p) \<and> \<not> t < 0
      \<or> t = spec_smaller_root a (- snd d) (- focus p) \<and> \<not> t < 0"
    unfolding focus_branch_roots [OF assms(1-3) a_def refl refl]
    by (auto split: if_splits dest!: reflect_at_SomeD)
  then show ?thesis using nz1 nz2 by auto
qed

subsection \<open>Algebra of the parabola\<close>

text \<open>
  The mirror image of a direction at a point of slope \<open>x / (2 f)\<close>, and the distance
  from the focus to a point of the curve, which equals the distance to the directrix.
\<close>

lemma slope_algebra:
  fixes f x :: real
  assumes "0 < f" and "x \<noteq> 0" and "s = - (2 * f / x)" and "k = 4 * f / (x\<^sup>2 + 4 * f\<^sup>2)"
  shows "2 * s / (1 + s\<^sup>2) = k * (0 - x)"
    and "2 * s\<^sup>2 / (1 + s\<^sup>2) - 1 = k * (f - x\<^sup>2 / (4 * f))"
    and "0 < k"
proof -
  have D: "x\<^sup>2 + 4 * f\<^sup>2 > 0" using assms(1,2) by (simp add: add_pos_pos)
  have S: "1 + s\<^sup>2 = (x\<^sup>2 + 4 * f\<^sup>2) / x\<^sup>2"
    using assms(2) by (simp add: assms(3) power2_eq_square field_simps)
  show "0 < k" using D assms(1) by (simp add: assms(4))
  have "2 * s / (1 + s\<^sup>2) = 2 * s * x\<^sup>2 / (x\<^sup>2 + 4 * f\<^sup>2)"
    by (simp add: S)
  also have "\<dots> = - (4 * f * x) / (x\<^sup>2 + 4 * f\<^sup>2)"
    using assms(2) by (simp add: assms(3) power2_eq_square)
  also have "\<dots> = k * (0 - x)" by (simp add: assms(4))
  finally show "2 * s / (1 + s\<^sup>2) = k * (0 - x)" .
  have "2 * s\<^sup>2 / (1 + s\<^sup>2) - 1 = 2 * s\<^sup>2 * x\<^sup>2 / (x\<^sup>2 + 4 * f\<^sup>2) - 1"
    by (simp add: S)
  also have "\<dots> = 8 * f\<^sup>2 / (x\<^sup>2 + 4 * f\<^sup>2) - 1"
    using assms(2) by (simp add: assms(3) power2_eq_square)
  also have "\<dots> = (4 * f\<^sup>2 - x\<^sup>2) / (x\<^sup>2 + 4 * f\<^sup>2)"
    using D by (simp add: field_simps)
  also have "\<dots> = k * (f - x\<^sup>2 / (4 * f))"
  proof -
    have "f - x\<^sup>2 / (4 * f) = (4 * f\<^sup>2 - x\<^sup>2) / (4 * f)"
      using assms(1) by (simp add: power2_eq_square field_simps)
    then have "k * (f - x\<^sup>2 / (4 * f)) = (4 * f / (4 * f)) * ((4 * f\<^sup>2 - x\<^sup>2) / (x\<^sup>2 + 4 * f\<^sup>2))"
      by (simp add: assms(4))
    also have "\<dots> = (4 * f\<^sup>2 - x\<^sup>2) / (x\<^sup>2 + 4 * f\<^sup>2)"
      using assms(1) by simp
    finally show ?thesis by simp
  qed
  finally show "2 * s\<^sup>2 / (1 + s\<^sup>2) - 1 = k * (f - x\<^sup>2 / (4 * f))" .
qed

lemma focal_distance:
  fixes f x k :: real
  assumes "0 < f" and "0 < k" and "q = x\<^sup>2 / (4 * f)"
  shows "(k * x)\<^sup>2 + (k * (q - f))\<^sup>2 = (k * (q + f))\<^sup>2"
    and "sqrt ((k * x)\<^sup>2 + (k * (q - f))\<^sup>2) = k * (q + f)"
    and "0 < q + f"
proof -
  have x2: "x\<^sup>2 = 4 * f * q" using assms(1,3) by simp
  have q0: "0 \<le> q" using assms(1,3) by simp
  show pos: "0 < q + f" using q0 assms(1) by simp
  have "(k * x)\<^sup>2 + (k * (q - f))\<^sup>2 = k\<^sup>2 * (x\<^sup>2 + (q - f)\<^sup>2)"
    by (simp only: power_mult_distrib distrib_left)
  also have "x\<^sup>2 + (q - f)\<^sup>2 = (q + f)\<^sup>2"
    unfolding x2 by (simp add: power2_eq_square algebra_simps)
  finally show sq: "(k * x)\<^sup>2 + (k * (q - f))\<^sup>2 = (k * (q + f))\<^sup>2"
    by (simp add: power_mult_distrib)
  have "0 \<le> k * (q + f)" using pos assms(2) by simp
  then show "sqrt ((k * x)\<^sup>2 + (k * (q - f))\<^sup>2) = k * (q + f)"
    unfolding sq by simp
qed

subsection \<open>Concrete rays and samples\<close>

text \<open>
  A vertical ray, a ray from the focus and a ray from a point a millionth above the
  focus, all for \<open>f = 1\<close>; a vertical ray for \<open>f = - 1\<close>; two square roots; the
  samples of \<open>np.linspace\<close>.
\<close>

lemma ex_parallel: "reflect_ray (init 1) (2, 10) (0, - 1) = Inr (Some ((2, 1), (- 1, 0), 9))"
proof -
  have nc: "\<not> allclose (2, 10) (0, focus (init 1))"
    by (simp add: allclose_def init_def atol_def rtol_def)
  have ra: "reflect_at (init 1) (2, 1) (0, - 1) 9 = Inr (Some ((2, 1), (- 1, 0), 9))"
    by (subst reflect_at_slope [where s = "- 1" and u = 0 and v = "- 1"])
       (simp_all add: init_def norm2_def power2_eq_square)
  show ?thesis
    using nc ra by (simp add: reflect_ray_def parabola_y_def fdiv_def init_def)
qed

lemma ex_focal: "reflect_ray (init 1) (0, 1) (2, 0) = Inr (Some ((2, 1), (0, 1), 1))"
proof -
  have c: "allclose (0, 1) (0, focus (init 1))"
    by (simp add: allclose_def init_def atol_def rtol_def)
  have ra: "reflect_at (init 1) (2, 1) (2, 0) 1 = Inr (Some ((2, 1), (0, 1), 1))"
    by (subst reflect_at_slope [where s = "- 1" and u = 1 and v = 0])
       (simp_all add: init_def norm2_def power2_eq_square)
  show ?thesis
    using c ra by (simp add: reflect_ray_def fdiv_def init_def)
qed

lemma ex_near_focus:
  "reflect_ray (init 1) (0, 1000001 / 1000000) (2, 0) = Inr (Some ((2, 1), (0, 1), 1))"
proof -
  have c: "allclose (0, 1000001 / 1000000) (0, focus (init 1))"
    by (simp add: allclose_def init_def atol_def rtol_def)
  have ra: "reflect_at (init 1) (2, 1) (2, 0) 1 = Inr (Some ((2, 1), (0, 1), 1))"
    by (subst reflect_at_slope [where s = "- 1" and u = 1 and v = 0])
       (simp_all add: init_def norm2_def power2_eq_square)
  show ?thesis
    using c ra by (simp add: reflect_ray_def fdiv_def init_def)
qed

lemma ex_negative_focus:
  "reflect_ray (init (- 1)) (2, 10) (0, - 1) = Inr (Some ((2, - 1), (1, 0), 11))"
proof -
  have nc: "\<not> allclose (2, 10) (0, focus (init (- 1)))"
    by (simp add: allclose_def init_def atol_def rtol_def)
  have ra: "reflect_at (init (- 1)) (2, - 1) (0, - 1) 11 = Inr (Some ((2, - 1), (1, 0), 11))"
    by (subst reflect_at_slope [where s = 1 and u = 0 and v = "- 1"])
       (simp_all add: init_def norm2_def power2_eq_square)
  show ?thesis
    using nc ra by (simp add: reflect_ray_def parabola_y_def fdiv_def init_def)
qed

lemma sqrt_16: "sqrt 16 = 4"
  using real_sqrt_abs [of 4] by simp

lemma sqrt_64: "sqrt 64 = 8"
  using real_sqrt_abs [of 8] by simp

lemma linspace_nonneg:
  assumes "0 \<le> n"
  shows "linspace lo hi n =
    Inr (map (\<lambda>i. lo + real i * (if n = 1 then 0 else (hi - lo) / real_of_int (n - 1)))
           [0 ..< nat n])"
  using assms by (simp add: linspace_def)

section \<open>The claims of the specification\<close>

subsection \<open>C1: a vertical ray is reflected to the focus\<close>




subsection \<open>C2: a ray from the focus is reflected along the axis\<close>

text \<open>
  C2, as amended. For every focal length \<open>f > 0\<close>, every nonzero \<open>x\<close> and every
  \<open>k > 0\<close>, \<open>reflect_ray\<close> on the ray from \<open>(0, f)\<close> with direction
  \<open>k (x, x\<^sup>2 / (4 f) - f)\<close> (a direction proportional to, and pointing the same way as,
  the vector from the focus to the curve point) returns the hit \<open>(x, x\<^sup>2 / (4 f))\<close> at
  \<open>t = 1 / k\<close>, and the reflected direction is \<open>(0, 1)\<close>: its x-component is 0, its
  y-component is 1, whatever the sign of \<open>x\<close>. The axis of the parabola is the y-axis.
\<close>

theorem focal_ray_reflects_along_axis:
  assumes f: "0 < focus p" and x: "x \<noteq> 0" and k: "0 < k"
  shows "reflect_ray p (0, focus p) (k * x, k * (x\<^sup>2 / (4 * focus p) - focus p))
         = Inr (Some ((x, x\<^sup>2 / (4 * focus p)), (0, 1), 1 / k))"
proof -
  define F where "F = focus p"
  define q where "q = x\<^sup>2 / (4 * F)"
  define d where "d = (k * x, k * (q - F))"
  have F: "0 < F" using f by (simp add: F_def)
  have x2: "x\<^sup>2 = 4 * F * q" using F by (simp add: q_def)
  have q: "0 < q" using F x by (simp add: q_def)
  note fd = focal_distance [OF F k q_def]
  have dnz: "d \<noteq> (0, 0)" using x k by (simp add: d_def)
  have nd: "norm2 d = k * (q + F)" using fd(2) by (simp add: norm2_def d_def)
  define a where "a = (k * x)\<^sup>2 / (4 * F)"
  have a: "a = k\<^sup>2 * q" using F by (simp add: a_def x2 power_mult_distrib)
  have anz: "2 * a \<noteq> 0" using k q by (simp add: a)
  have disc: "(- (k * (q - F)))\<^sup>2 - 4 * a * (- F) = (k * x)\<^sup>2 + (k * (q - F))\<^sup>2"
    using F by (simp add: a_def)
  have sq: "sqrt ((- (k * (q - F)))\<^sup>2 - 4 * a * (- F)) = k * (q + F)"
    unfolding disc by (rule fd(2))
  have t: "(- (- (k * (q - F))) + k * (q + F)) / (2 * a) = 1 / k"
  proof -
    have "- (- (k * (q - F))) + k * (q + F) = 2 * k * q" by (simp add: algebra_simps)
    moreover have "2 * a = 2 * k * q * k" by (simp add: a power2_eq_square)
    ultimately show ?thesis using k q by simp
  qed
  have dge: "\<not> (- (k * (q - F)))\<^sup>2 - 4 * a * (- F) < 0"
    unfolding disc by (simp add: not_less)
  have hitp: "(0 + 1 / k * (k * x), F + 1 / k * (k * (q - F))) = (x, q)"
    using k by simp
  have rr: "reflect_ray p (0, F) d = reflect_at p (x, q) d (1 / k)"
  proof -
    have 1: "fdiv ((fst d)\<^sup>2) (4 * focus p) = Inr a"
      using F by (simp add: fdiv_def d_def a_def F_def)
    have 2: "(k * (q + F))\<^sup>2 = (- snd d)\<^sup>2 - 4 * a * (- focus p)"
      using disc fd(1) by (simp add: d_def F_def)
    have 3: "\<not> (k * (q + F))\<^sup>2 < 0" by (simp add: not_less)
    have s3: "sqrt ((k * (q + F))\<^sup>2) = k * (q + F)" using k fd(3) by simp
    have 4: "fdiv (- (- snd d) + sqrt ((k * (q + F))\<^sup>2)) (2 * a) = Inr (1 / k)"
      unfolding s3 using anz t by (simp add: fdiv_def d_def)
    have 5: "fdiv (- (- snd d) - sqrt ((k * (q + F))\<^sup>2)) (2 * a)
        = Inr ((- (- snd d) - sqrt ((k * (q + F))\<^sup>2)) / (2 * a))"
      using anz by (simp add: fdiv_def)
    have "reflect_ray p (0, F) d =
      reflect_at p (0 + 1 / k * fst d, focus p + 1 / k * snd d) d (1 / k)"
      unfolding F_def focus_branch [OF allclose_refl [of "(0, focus p)"] 1 2 3 4 5]
      using k by simp
    then show ?thesis using hitp by (simp add: d_def F_def)
  qed
  define s where "s = - (2 * F / x)"
  define k' where "k' = 4 * F / (x\<^sup>2 + 4 * F\<^sup>2)"
  note alg = slope_algebra [OF F x s_def k'_def]
  define u where "u = fst d / norm2 d"
  define v where "v = snd d / norm2 d"
  have D: "x\<^sup>2 + 4 * F\<^sup>2 = 4 * F * (q + F)"
    unfolding x2 by (simp add: power2_eq_square algebra_simps)
  have k'': "k' = 1 / (q + F)" using F fd(3) by (simp add: k'_def D)
  have u: "u = k' * x" unfolding u_def nd using k fd(3) by (simp add: d_def k'')
  have v: "v = k' * (q - F)" unfolding v_def nd using k fd(3) by (simp add: d_def k'')
  have usv: "u + s * v = - s"
  proof -
    have "u + s * v = k' * (x + s * (q - F))" by (simp add: u v algebra_simps)
    also have "x + s * (q - F) = (x\<^sup>2 - 2 * F * q + 2 * F\<^sup>2) / x"
      using x by (simp add: s_def power2_eq_square field_simps)
    also have "\<dots> = 2 * F * (q + F) / x"
      unfolding x2 by (simp add: power2_eq_square algebra_simps)
    also have "k' * (2 * F * (q + F) / x) = 2 * F / x"
      using fd(3) by (simp add: k'')
    finally show ?thesis by (simp add: s_def)
  qed
  have r1: "u - 2 * (u + s * v) / (1 + s\<^sup>2) = 0"
    unfolding usv using alg(1) by (simp add: u)
  have "v - 2 * (- s) * s / (1 + s\<^sup>2) = v + 2 * s\<^sup>2 / (1 + s\<^sup>2)"
    by (simp add: power2_eq_square)
  also have "\<dots> = v + (k' * (F - q) + 1)" using alg(2) by (simp add: q_def)
  also have "\<dots> = 1" by (simp add: v algebra_simps)
  finally have r2: "v - 2 * (u + s * v) * s / (1 + s\<^sup>2) = 1" unfolding usv .
  have "reflect_at p (x, q) d (1 / k) =
    Inr (Some ((x, q), (u - 2 * (u + s * v) / (1 + s\<^sup>2), v - 2 * (u + s * v) * s / (1 + s\<^sup>2)), 1 / k))"
    using F x dnz by (intro reflect_at_slope) (simp_all add: s_def u_def v_def F_def)
  then have "reflect_ray p (0, F) d = Inr (Some ((x, q), (0, 1), 1 / k))"
    unfolding rr r1 r2 .
  then show ?thesis by (simp add: F_def q_def d_def)
qed

theorem focal_ray_reflects_along_axis_witness:
  "0 < focus (init 1) \<and> (- 2 :: real) \<noteq> 0 \<and> (0 :: real) < 1 / 2
   \<and> reflect_ray (init 1) (0, 1) (- 1, 0) = Inr (Some ((- 2, 1), (0, 1), 2))"
  using focal_ray_reflects_along_axis [of "init 1" "- 2" "1 / 2"] by (simp add: init_def)

text \<open>
  C2 as it is written asks for a reflected direction with y-component 0 and an
  x-component of the sign of \<open>x\<close>. For \<open>f = 1\<close> and \<open>x = 2\<close> the direction is
  \<open>(2, 0)\<close>, the hit is \<open>(2, 1)\<close>, and the reflected direction is \<open>(0, 1)\<close>.
\<close>

theorem focal_ray_direction_counterexample:
  "reflect_ray (init 1) (0, 1) (2, 2\<^sup>2 / (4 * 1) - 1) = Inr (Some ((2, 2\<^sup>2 / (4 * 1)), (0, 1), 1))
   \<and> \<not> (snd ((0, 1) :: vec) = 0 \<and> 0 < fst ((0, 1) :: vec))"
  using ex_focal by simp

subsection \<open>C3: the general branch takes the smaller root only\<close>

text \<open>
  C3, as amended. For every ray with \<open>dx \<noteq> 0\<close> whose origin is not within the
  tolerance of \<open>np.allclose\<close> of the focus \<open>(0, f)\<close>, \<open>reflect_ray\<close> solves the
  quadratic with \<open>a = dx\<^sup>2\<close>, \<open>b = 2 x0 dx - 4 f dy\<close>, \<open>c = x0\<^sup>2 - 4 f y0\<close>: it
  returns absent when the discriminant is negative; otherwise it takes the smaller root,
  returns absent when that root is negative (whatever the larger root is), and for
  \<open>f \<noteq> 0\<close> returns a hit at that root when it is not negative.
\<close>

theorem general_branch_smaller_root:
  assumes "\<not> allclose s (0, focus p)" and "fst d \<noteq> 0"
    and "a = (fst d)\<^sup>2" and "b = 2 * fst s * fst d - 4 * focus p * snd d"
    and "c = (fst s)\<^sup>2 - 4 * focus p * snd s"
  shows "(spec_discriminant a b c < 0 \<longrightarrow> reflect_ray p s d = Inr None)
    \<and> (0 \<le> spec_discriminant a b c \<and> spec_smaller_root a b c < 0
         \<longrightarrow> reflect_ray p s d = Inr None)
    \<and> (0 \<le> spec_discriminant a b c \<and> 0 \<le> spec_smaller_root a b c \<and> focus p \<noteq> 0
         \<longrightarrow> (\<exists>r. reflect_ray p s d =
                Inr (Some ((fst s + spec_smaller_root a b c * fst d,
                            snd s + spec_smaller_root a b c * snd d), r,
                           spec_smaller_root a b c))))"
proof -
  have dnz: "d \<noteq> (0, 0)" using assms(2) by auto
  show ?thesis
    unfolding general_branch [OF assms]
    using reflect_at_total [OF _ dnz, of p] by (auto simp: not_less)
qed

text \<open>
  Three horizontal rays for \<open>f = 1\<close>: from \<open>(0, - 1)\<close> below the curve (negative
  discriminant), from \<open>(0, 4)\<close> inside it (roots \<open>- 4\<close> and \<open>4\<close>: absent, the larger
  root is not used), and from \<open>(- 4, 1)\<close> outside it (roots 2 and 6: the hit at 2).
\<close>

theorem general_branch_smaller_root_witness:
  "\<not> allclose (0, - 1) (0, focus (init 1)) \<and> spec_discriminant 1 0 4 < 0
   \<and> reflect_ray (init 1) (0, - 1) (1, 0) = Inr None
   \<and> \<not> allclose (0, 4) (0, focus (init 1))
   \<and> 0 \<le> spec_discriminant 1 0 (- 16) \<and> spec_smaller_root 1 0 (- 16) < 0
   \<and> 0 \<le> spec_larger_root 1 0 (- 16)
   \<and> reflect_ray (init 1) (0, 4) (1, 0) = Inr None
   \<and> \<not> allclose (- 4, 1) (0, focus (init 1))
   \<and> 0 \<le> spec_discriminant 1 (- 8) 12 \<and> spec_smaller_root 1 (- 8) 12 = 2
   \<and> (\<exists>r. reflect_ray (init 1) (- 4, 1) (1, 0) = Inr (Some ((- 2, 1), r, 2)))"
proof -
  have h0: "\<not> allclose (0, - 1) (0, focus (init 1))"
    by (simp add: init_def allclose_def atol_def rtol_def)
  have h1: "\<not> allclose (0, 4) (0, focus (init 1))"
    by (simp add: init_def allclose_def atol_def rtol_def)
  have h3: "\<not> allclose (- 4, 1) (0, focus (init 1))"
    by (simp add: init_def allclose_def atol_def rtol_def)
  have h2: "fst ((1, 0) :: vec) \<noteq> 0" by simp
  have d: "spec_discriminant 1 0 4 = - 16" "spec_discriminant 1 0 (- 16) = 64"
    "spec_discriminant 1 (- 8) 12 = 16"
    by (simp_all add: spec_discriminant_def)
  have r: "spec_smaller_root 1 0 (- 16) = - 4" "spec_larger_root 1 0 (- 16) = 4"
    "spec_smaller_root 1 (- 8) 12 = 2"
    by (simp_all add: spec_smaller_root_def spec_larger_root_def d sqrt_64 sqrt_16)
  have A: "reflect_ray (init 1) (0, - 1) (1, 0) = Inr None"
    using general_branch_smaller_root [OF h0 h2, of 1 0 4] by (simp add: d init_def)
  have B: "reflect_ray (init 1) (0, 4) (1, 0) = Inr None"
    using general_branch_smaller_root [OF h1 h2, of 1 0 "- 16"] by (simp add: d r init_def)
  have C: "\<exists>r. reflect_ray (init 1) (- 4, 1) (1, 0) = Inr (Some ((- 2, 1), r, 2))"
    using general_branch_smaller_root [OF h3 h2, of 1 "- 8" 12] by (simp add: d r init_def)
  show ?thesis using h0 h1 h3 A B C by (simp add: d r)
qed

text \<open>
  C3 as it is written asks only that the origin is not the focus. For \<open>f = 1\<close> the
  origin \<open>(0, 1.000001)\<close> is not the focus, the direction \<open>(2, 0)\<close> has \<open>dx \<noteq> 0\<close>,
  and the smaller root of the claim's quadratic is negative; yet \<open>np.allclose\<close> holds,
  the focus branch runs, and the call returns a hit.
\<close>

theorem general_branch_near_focus_counterexample:
  "((0, 1000001 / 1000000) :: vec) \<noteq> (0, focus (init 1)) \<and> fst ((2, 0) :: vec) \<noteq> 0
   \<and> 0 \<le> spec_discriminant (2\<^sup>2) (2 * 0 * 2 - 4 * 1 * 0) (0\<^sup>2 - 4 * 1 * (1000001 / 1000000))
   \<and> spec_smaller_root (2\<^sup>2) (2 * 0 * 2 - 4 * 1 * 0) (0\<^sup>2 - 4 * 1 * (1000001 / 1000000)) < 0
   \<and> reflect_ray (init 1) (0, 1000001 / 1000000) (2, 0) = Inr (Some ((2, 1), (0, 1), 1))"
  using ex_near_focus
  by (simp add: init_def spec_discriminant_def spec_smaller_root_def)

subsection \<open>C4: nothing is validated\<close>

text \<open>
  C4, as amended. No input is rejected. Constructing a \<open>ParabolaOptics\<close> with any
  focus, positive or not, stores \<open>focus\<close> and \<open>directrix = - focus\<close>; assigning any
  value to \<open>focus\<close> stores it; and \<open>reflect_ray\<close> with a zero-length direction, from
  an origin that is not within the tolerance of \<open>np.allclose\<close> of the focus and for
  \<open>f \<noteq> 0\<close>, returns the ordinary absent result.
\<close>

theorem no_input_validation:
  "focus (init f) = f \<and> directrix (init f) = - f \<and> focus (update_focus p f) = f
   \<and> (\<not> allclose s (0, focus p) \<and> focus p \<noteq> 0 \<longrightarrow> reflect_ray p s (0, 0) = Inr None)"
  by (simp add: init_def update_focus_def reflect_ray_def parabola_y_def fdiv_def)

theorem no_input_validation_witness:
  "\<not> allclose (2, 10) (0, focus (init 1)) \<and> focus (init 1) \<noteq> 0
   \<and> reflect_ray (init 1) (2, 10) (0, 0) = Inr None"
  using no_input_validation [of 1 "init 1" "(2, 10)"]
  by (simp add: init_def allclose_def atol_def rtol_def)

text \<open>
  C4 as it is written asks that a focus \<open>\<le> 0\<close> and a zero-length direction fail.
  A parabola with focus \<open>- 1\<close> is constructed, or reached by assignment, and reflects a
  ray; a zero-length direction gives the absent result of a ray that misses.
\<close>

theorem degenerate_inputs_accepted_counterexample:
  "init (- 1) = \<lparr>focus = - 1, directrix = 1\<rparr>
   \<and> update_focus (init 1) (- 1) = \<lparr>focus = - 1, directrix = - 1\<rparr>
   \<and> reflect_ray (init (- 1)) (2, 10) (0, - 1) = Inr (Some ((2, - 1), (1, 0), 11))
   \<and> reflect_ray (init 1) (2, 10) (0, 0) = Inr None"
proof -
  have "reflect_ray (init 1) (2, 10) (0, 0) = Inr None"
    by (simp add: reflect_ray_def init_def allclose_def atol_def rtol_def parabola_y_def fdiv_def)
  then show ?thesis using ex_negative_focus by (simp add: init_def update_focus_def)
qed

subsection \<open>C5: the focus branch and a vertical ray\<close>

text \<open>
  C5. The focus-origin branch is claimed to handle a ray from \<open>(0, f)\<close> with
  \<open>dx = 0\<close> without dividing by the coefficient \<open>a = dx\<^sup>2 / (4 f)\<close> when it is
  zero. The code does divide by \<open>2 a = 0\<close> on line 47: for \<open>f = 1\<close>, origin
  \<open>(0, 1)\<close> and direction \<open>(0, - 1)\<close>, the middle ray that \<open>generate_focal_rays\<close>
  builds for an odd count, the run reaches a division by zero.
\<close>

theorem focus_branch_vertical_divides_by_zero:
  "reflect_ray (init 1) (0, 1) (0, - 1) = Inl ZeroDivision"
  by (simp add: reflect_ray_def init_def allclose_def atol_def rtol_def fdiv_def)

subsection \<open>C6: the two thresholds on \<open>t\<close>\<close>



subsection \<open>C7: the returned parameter and the hit point\<close>

text \<open>
  C7, as amended. Whenever \<open>reflect_ray\<close> returns a hit, the returned parameter
  satisfies \<open>t \<ge> 0\<close>. The hit point equals \<open>origin + t direction\<close> when the origin is
  not within the tolerance of \<open>np.allclose\<close> of the focus; when it is, the hit point is
  \<open>(0, f) + t direction\<close>, computed from the focus itself, so it is within \<open>atol\<close> in x
  and \<open>atol + rtol |f|\<close> in y of \<open>origin + t direction\<close>.
\<close>

theorem hit_parameter_nonneg:
  assumes "reflect_ray p s d = Inr (Some (h, r, t))"
  shows "0 \<le> t
    \<and> (if allclose s (0, focus p) then h = (0 + t * fst d, focus p + t * snd d)
        else h = (fst s + t * fst d, snd s + t * snd d))
    \<and> \<bar>fst s + t * fst d - fst h\<bar> \<le> atol
    \<and> \<bar>snd s + t * snd d - snd h\<bar> \<le> atol + rtol * \<bar>focus p\<bar>"
proof -
  have tol: "0 \<le> atol" "0 \<le> atol + rtol * \<bar>focus p\<bar>"
    by (simp_all add: atol_def rtol_def)
  have main: "0 \<le> t
    \<and> (if allclose s (0, focus p) then h = (0 + t * fst d, focus p + t * snd d)
        else h = (fst s + t * fst d, snd s + t * snd d))"
    using assms
    by (auto simp: reflect_ray_def Let_def fdiv_def parabola_y_def
        split: if_splits sum.splits dest!: reflect_at_SomeD)
  show ?thesis
  proof (cases "allclose s (0, focus p)")
    case True
    then have "\<bar>fst s\<bar> \<le> atol" "\<bar>snd s - focus p\<bar> \<le> atol + rtol * \<bar>focus p\<bar>"
      by (simp_all add: allclose_def)
    then show ?thesis using main True by simp
  next
    case False
    then show ?thesis using main tol by simp
  qed
qed

theorem hit_parameter_nonneg_witness:
  "reflect_ray (init 1) (2, 10) (0, - 1) = Inr (Some ((2, 1), (- 1, 0), 9))
   \<and> (0::real) \<le> 9 \<and> \<not> allclose (2, 10) (0, focus (init 1))
   \<and> ((2, 1) :: vec) = (2 + 9 * 0, 10 + 9 * (- 1))"
  using hit_parameter_nonneg [OF ex_parallel] ex_parallel
  by (simp add: init_def allclose_def atol_def rtol_def)

text \<open>
  C7 as it is written asks that the hit point equals \<open>origin + t direction\<close> for every
  ray. For \<open>f = 1\<close>, origin \<open>(0, 1.000001)\<close> and direction \<open>(2, 0)\<close> the call returns
  the hit \<open>(2, 1)\<close> at \<open>t = 1\<close>, and \<open>origin + t direction\<close> is \<open>(2, 1.000001)\<close>.
\<close>

theorem hit_point_near_focus_counterexample:
  "reflect_ray (init 1) (0, 1000001 / 1000000) (2, 0) = Inr (Some ((2, 1), (0, 1), 1))
   \<and> ((2, 1) :: vec) \<noteq> (0 + 1 * 2, 1000001 / 1000000 + 1 * 0)"
  using ex_near_focus by simp

subsection \<open>C8: the reflected direction is a unit vector\<close>



subsection \<open>C9: the directrix after a change of the focal length\<close>

text \<open>
  C9. The invariant \<open>directrix = - focus\<close> is claimed to survive every change of the
  focal length. The assignment of line 139 changes \<open>focus\<close> only: after the focal
  length of a fresh object goes from 1 to 2 the directrix is still \<open>- 1\<close>.
\<close>

theorem directrix_stale_after_update:
  "focus (update_focus (init 1) 2) = 2 \<and> directrix (update_focus (init 1) 2) = - 1
   \<and> directrix (update_focus (init 1) 2) \<noteq> - focus (update_focus (init 1) 2)"
  by (simp add: update_focus_def init_def)

subsection \<open>C10: the parallel bundle does not depend on the focal length\<close>

text \<open>
  C10. \<open>generate_parallel_rays\<close> gives the same result for any two parabolas: for a
  count \<open>n \<ge> 0\<close> the \<open>n\<close> rays from \<open>(x\<^sub>i, 10)\<close> with direction \<open>(0, - 1)\<close>, where
  \<open>x\<^sub>i = lo + i (hi - lo) / (n - 1)\<close> (and \<open>x\<^sub>0 = lo\<close> for a single ray), and the
  \<open>ValueError\<close> of \<open>np.linspace\<close> for a negative count. \<open>generate_focal_rays\<close> does
  depend on the focal length.
\<close>

theorem parallel_rays_ignore_focus:
  "generate_parallel_rays p n xr = generate_parallel_rays q n xr
   \<and> (0 \<le> n \<longrightarrow> generate_parallel_rays p n (lo, hi) =
         Inr (map (\<lambda>i. ((lo + real i * (if n = 1 then 0 else (hi - lo) / real_of_int (n - 1)), 10),
                         (0, - 1)))
                [0 ..< nat n]))
   \<and> (n < 0 \<longrightarrow> generate_parallel_rays p n xr = Inl ValueError)
   \<and> generate_focal_rays (init 1) 1 \<noteq> generate_focal_rays (init 2) 1"
proof (intro conjI impI)
  show "generate_parallel_rays p n xr = generate_parallel_rays q n xr"
    by (simp add: generate_parallel_rays_def)
  show "generate_parallel_rays p n (lo, hi) =
         Inr (map (\<lambda>i. ((lo + real i * (if n = 1 then 0 else (hi - lo) / real_of_int (n - 1)), 10),
                         (0, - 1)))
                [0 ..< nat n])" if "0 \<le> n"
    by (simp add: generate_parallel_rays_def linspace_nonneg [OF that] comp_def)
  show "generate_parallel_rays p n xr = Inl ValueError" if "n < 0"
    using that by (simp add: generate_parallel_rays_def linspace_def)
  have "generate_focal_rays (init 1) 1 = Inr [((0, 1), (- 3 / norm2 (- 3, 5 / 4), (5 / 4) / norm2 (- 3, 5 / 4)))]"
    by (simp add: generate_focal_rays_def linspace_def focal_ray_def parabola_y_def fdiv_def
        vdiv_def init_def norm2_eq_0 Let_def)
  moreover have "generate_focal_rays (init 2) 1 = Inr [((0, 2), (- 3 / norm2 (- 3, - 7 / 8), (- 7 / 8) / norm2 (- 3, - 7 / 8)))]"
    by (simp add: generate_focal_rays_def linspace_def focal_ray_def parabola_y_def fdiv_def
        vdiv_def init_def norm2_eq_0 Let_def)
  ultimately show "generate_focal_rays (init 1) 1 \<noteq> generate_focal_rays (init 2) 1"
    by simp
qed

theorem parallel_rays_ignore_focus_witness:
  "(0::int) \<le> 3 \<and> generate_parallel_rays (init 1) 3 (- 3, 3)
     = Inr [((- 3, 10), (0, - 1)), ((0, 10), (0, - 1)), ((3, 10), (0, - 1))]
   \<and> generate_parallel_rays (init 2) 3 (- 3, 3) = generate_parallel_rays (init 1) 3 (- 3, 3)"
  using parallel_rays_ignore_focus [of "init 2" 3 "(- 3, 3)" "init 1" "- 3" 3] parallel_rays_ignore_focus [of "init 1" 3 "(- 3, 3)" "init 1" "- 3" 3]
  by (simp add: upt_rec numeral_3_eq_3)

end
